theory Spec2Isabelle
  imports Main "HOL-Library.Sublist" "HOL-Library.Char_ord" "HOL-Library.List_Lexorder"
begin

section \<open>Python values\<close>

text \<open>
  \<^verbatim>\<open>vupysolr/docs.py\<close> reads Solr documents as decoded from JSON: untyped Python
  values. The model keeps the dynamic typing: one datatype of values, tagged by the
  Python type. A text is a list of code points below 256 (\<open>string\<close>), a \<open>dict\<close>
  is an association list with text keys (as a decoded JSON object has), read with
  \<open>map_of\<close>; \<open>PDictSub c kvs\<close> is an instance of a class \<open>c\<close> that derives from
  \<open>dict\<close> and inherits its methods unchanged (it exists because one guard of the
  source compares \<open>type(x)\<close> with \<open>dict\<close>). \<open>None\<close> is \<open>PNone\<close>: what the
  specification calls an absent result.
\<close>

datatype pyval =
    PNone
  | PBool bool
  | PInt int
  | PStr string
  | PList "pyval list"
  | PDict "(string \<times> pyval) list"
  | PDictSub string "(string \<times> pyval) list"

text \<open>The exceptions the modelled code can raise; a raise is the \<open>Inl\<close> of a sum.\<close>

datatype pyerror = TypeError | AttributeError | KeyError | ValueError

text \<open>\<^verbatim>\<open>if x:\<close> -- Python's truth value of \<open>x\<close>.\<close>

fun py_truthy :: "pyval \<Rightarrow> bool" where
  "py_truthy PNone = False"
| "py_truthy (PBool b) = b"
| "py_truthy (PInt i) = (i \<noteq> 0)"
| "py_truthy (PStr s) = (s \<noteq> [])"
| "py_truthy (PList xs) = (xs \<noteq> [])"
| "py_truthy (PDict kvs) = (kvs \<noteq> [])"
| "py_truthy (PDictSub c kvs) = (kvs \<noteq> [])"

text \<open>
  \<^verbatim>\<open>k in x\<close> for a text \<open>k\<close>: key membership in a dict, element membership in a
  list, substring test in a text, \<open>TypeError\<close> (argument is not iterable) otherwise.
\<close>

fun py_contains :: "string \<Rightarrow> pyval \<Rightarrow> pyerror + bool" where
  "py_contains k (PDict kvs) = Inr (map_of kvs k \<noteq> None)"
| "py_contains k (PDictSub c kvs) = Inr (map_of kvs k \<noteq> None)"
| "py_contains k (PList xs) = Inr (PStr k \<in> set xs)"
| "py_contains k (PStr s) = Inr (sublist k s)"
| "py_contains k PNone = Inl TypeError"
| "py_contains k (PBool b) = Inl TypeError"
| "py_contains k (PInt i) = Inl TypeError"

text \<open>
  \<^verbatim>\<open>x[k]\<close> for a text \<open>k\<close>: the value of a dict (\<open>KeyError\<close> when the key is
  missing), \<open>TypeError\<close> otherwise (list and text indices must be integers, the other
  values are not subscriptable).
\<close>

fun py_getitem :: "pyval \<Rightarrow> string \<Rightarrow> pyerror + pyval" where
  "py_getitem (PDict kvs) k = (case map_of kvs k of Some v \<Rightarrow> Inr v | None \<Rightarrow> Inl KeyError)"
| "py_getitem (PDictSub c kvs) k = (case map_of kvs k of Some v \<Rightarrow> Inr v | None \<Rightarrow> Inl KeyError)"
| "py_getitem (PList xs) k = Inl TypeError"
| "py_getitem (PStr s) k = Inl TypeError"
| "py_getitem PNone k = Inl TypeError"
| "py_getitem (PBool b) k = Inl TypeError"
| "py_getitem (PInt i) k = Inl TypeError"

text \<open>\<^verbatim>\<open>list(x.keys())\<close>: only a dict has the method.\<close>

fun py_keys :: "pyval \<Rightarrow> pyerror + string list" where
  "py_keys (PDict kvs) = Inr (remdups (map fst kvs))"
| "py_keys (PDictSub c kvs) = Inr (remdups (map fst kvs))"
| "py_keys (PList xs) = Inl AttributeError"
| "py_keys (PStr s) = Inl AttributeError"
| "py_keys PNone = Inl AttributeError"
| "py_keys (PBool b) = Inl AttributeError"
| "py_keys (PInt i) = Inl AttributeError"

text \<open>
  \<^verbatim>\<open>for field in x\<close>: the elements of a list, the keys of a dict, the characters of
  a text (each a text of length one), \<open>TypeError\<close> otherwise.
\<close>

fun py_iter :: "pyval \<Rightarrow> pyerror + pyval list" where
  "py_iter (PList xs) = Inr xs"
| "py_iter (PDict kvs) = Inr (map PStr (remdups (map fst kvs)))"
| "py_iter (PDictSub c kvs) = Inr (map PStr (remdups (map fst kvs)))"
| "py_iter (PStr s) = Inr (map (\<lambda>c. PStr [c]) s)"
| "py_iter PNone = Inl TypeError"
| "py_iter (PBool b) = Inl TypeError"
| "py_iter (PInt i) = Inl TypeError"

text \<open>
  \<^verbatim>\<open>x[:n]\<close>: the first \<open>n\<close> characters of a text or elements of a list, fewer when
  there are fewer; \<open>TypeError\<close> otherwise (for a dict, the slice is not a key: an
  error in every version of Python, a \<open>TypeError\<close> up to 3.11).
\<close>

fun py_slice_to :: "nat \<Rightarrow> pyval \<Rightarrow> pyerror + pyval" where
  "py_slice_to n (PStr s) = Inr (PStr (take n s))"
| "py_slice_to n (PList xs) = Inr (PList (take n xs))"
| "py_slice_to n (PDict kvs) = Inl TypeError"
| "py_slice_to n (PDictSub c kvs) = Inl TypeError"
| "py_slice_to n PNone = Inl TypeError"
| "py_slice_to n (PBool b) = Inl TypeError"
| "py_slice_to n (PInt i) = Inl TypeError"

text \<open>
  \<^verbatim>\<open>x.strip()\<close>: only a text has the method. It removes leading and trailing
  whitespace; below code point 256 the whitespace characters of Python are 9 to 13, 28
  to 32, 133 and 160.
\<close>

definition py_isspace :: "char \<Rightarrow> bool" where
  "py_isspace c = ((of_char c :: nat) \<in> {9, 10, 11, 12, 13, 28, 29, 30, 31, 32, 133, 160})"

definition str_strip :: "string \<Rightarrow> string" where
  "str_strip s = rev (dropWhile py_isspace (rev (dropWhile py_isspace s)))"

fun py_strip :: "pyval \<Rightarrow> pyerror + string" where
  "py_strip (PStr s) = Inr (str_strip s)"
| "py_strip (PList xs) = Inl AttributeError"
| "py_strip (PDict kvs) = Inl AttributeError"
| "py_strip (PDictSub c kvs) = Inl AttributeError"
| "py_strip PNone = Inl AttributeError"
| "py_strip (PBool b) = Inl AttributeError"
| "py_strip (PInt i) = Inl AttributeError"

text \<open>\<^verbatim>\<open>type(x) == dict\<close>: true of a dict itself, false of an instance of a subclass.\<close>

fun py_type_is_dict :: "pyval \<Rightarrow> bool" where
  "py_type_is_dict (PDict kvs) = True"
| "py_type_is_dict (PDictSub c kvs) = False"
| "py_type_is_dict (PList xs) = False"
| "py_type_is_dict (PStr s) = False"
| "py_type_is_dict PNone = False"
| "py_type_is_dict (PBool b) = False"
| "py_type_is_dict (PInt i) = False"

section \<open>The date and time library\<close>

text \<open>
  The source calls \<^verbatim>\<open>dateutil.parser.isoparse\<close>, \<^verbatim>\<open>datetime.datetime.strptime\<close>,
  \<^verbatim>\<open>datetime.date()\<close> and \<^verbatim>\<open>isoformat()\<close>. They are libraries, not code of the
  repository, and the source never looks inside a date: the model takes them as a
  parameter, a record of functions over any types \<open>'dt\<close> of timestamps and \<open>'d\<close> of
  dates. \<open>strptime\<close> is the function on texts; \<open>py_strptime\<close> below adds the
  argument check of the real one.
\<close>

record ('dt, 'd) pylib =
  isoparse :: "pyval \<Rightarrow> pyerror + 'dt"
  strptime :: "string \<Rightarrow> string \<Rightarrow> pyerror + 'dt"
  to_date :: "'dt \<Rightarrow> 'd"
  datetime_isoformat :: "'dt \<Rightarrow> string"
  date_isoformat :: "'d \<Rightarrow> string"

text \<open>\<^verbatim>\<open>datetime.datetime.strptime(x, fmt)\<close>: \<open>TypeError\<close> unless \<open>x\<close> is a text.\<close>

fun py_strptime :: "('dt, 'd) pylib \<Rightarrow> pyval \<Rightarrow> string \<Rightarrow> pyerror + 'dt" where
  "py_strptime L (PStr s) fmt = strptime L s fmt"
| "py_strptime L (PList xs) fmt = Inl TypeError"
| "py_strptime L (PDict kvs) fmt = Inl TypeError"
| "py_strptime L (PDictSub c kvs) fmt = Inl TypeError"
| "py_strptime L PNone fmt = Inl TypeError"
| "py_strptime L (PBool b) fmt = Inl TypeError"
| "py_strptime L (PInt i) fmt = Inl TypeError"

text \<open>\<^verbatim>\<open>DT005 = "%Y%m%d%H%M%S.0"\<close>\<close>

definition DT005 :: string where
  "DT005 = ''%Y%m%d%H%M%S.0''"

section \<open>VuFindMarcParser\<close>

record VuFindMarcParser =
  fullrecord :: pyval

text \<open>
  \<^verbatim>\<open>
  def __init__(self, doc):
      self.fullrecord = None
      if "fullrecord" in doc:
          self.fullrecord = doc["fullrecord"]
  \<close>
\<close>

definition VuFindMarcParser_init :: "pyval \<Rightarrow> pyerror + VuFindMarcParser" where
  "VuFindMarcParser_init doc =
     (case py_contains ''fullrecord'' doc of
        Inl e \<Rightarrow> Inl e
      | Inr b \<Rightarrow>
          if b then
            (case py_getitem doc ''fullrecord'' of
               Inl e \<Rightarrow> Inl e
             | Inr v \<Rightarrow> Inr \<lparr>fullrecord = v\<rparr>)
          else Inr \<lparr>fullrecord = PNone\<rparr>)"

text \<open>
  \<^verbatim>\<open>
  def fields(self):
      if self.fullrecord is not None and type(self.fullrecord) == dict:
          if "fields" in self.fullrecord:
              return self.fullrecord["fields"]
  \<close>
\<close>

definition VuFindMarcParser_fields :: "VuFindMarcParser \<Rightarrow> pyerror + pyval" where
  "VuFindMarcParser_fields m =
     (if fullrecord m \<noteq> PNone \<and> py_type_is_dict (fullrecord m) then
        (case py_contains ''fields'' (fullrecord m) of
           Inl e \<Rightarrow> Inl e
         | Inr b \<Rightarrow> if b then py_getitem (fullrecord m) ''fields'' else Inr PNone)
      else Inr PNone)"

text \<open>
  \<^verbatim>\<open>
  def latest_transaction(self):
      if self.fields is not None:
          for field in self.fields:
              if "005" in field:
                  return field["005"]
  \<close>
  The loop is a recursion over the elements the iteration yields.
\<close>

fun latest_transaction_loop :: "pyval list \<Rightarrow> pyerror + pyval" where
  "latest_transaction_loop [] = Inr PNone"
| "latest_transaction_loop (field # rest) =
     (case py_contains ''005'' field of
        Inl e \<Rightarrow> Inl e
      | Inr b \<Rightarrow> if b then py_getitem field ''005'' else latest_transaction_loop rest)"

definition latest_transaction :: "VuFindMarcParser \<Rightarrow> pyerror + pyval" where
  "latest_transaction m =
     (case VuFindMarcParser_fields m of
        Inl e \<Rightarrow> Inl e
      | Inr fs \<Rightarrow>
          if fs \<noteq> PNone then
            (case py_iter fs of Inl e \<Rightarrow> Inl e | Inr xs \<Rightarrow> latest_transaction_loop xs)
          else Inr PNone)"

text \<open>
  \<^verbatim>\<open>
  def latest_transaction_datetime(self):
      latest_trans = self.latest_transaction
      if latest_trans is not None:
          try:
              return datetime.datetime.strptime(latest_trans, DT005)
          except ValueError:
              pass
  \<close>
\<close>

definition latest_transaction_datetime ::
    "('dt, 'd) pylib \<Rightarrow> VuFindMarcParser \<Rightarrow> pyerror + 'dt option" where
  "latest_transaction_datetime L m =
     (case latest_transaction m of
        Inl e \<Rightarrow> Inl e
      | Inr latest_trans \<Rightarrow>
          if latest_trans \<noteq> PNone then
            (case py_strptime L latest_trans DT005 of
               Inr dt \<Rightarrow> Inr (Some dt)
             | Inl e \<Rightarrow> if e = ValueError then Inr None else Inl e)
          else Inr None)"

text \<open>
  \<^verbatim>\<open>
  def latest_transaction_iso(self):
      latest_trans_datetime = self.latest_transaction_datetime
      if latest_trans_datetime is not None:
          return latest_trans_datetime.isoformat()
  \<close>
\<close>

definition latest_transaction_iso ::
    "('dt, 'd) pylib \<Rightarrow> VuFindMarcParser \<Rightarrow> pyerror + string option" where
  "latest_transaction_iso L m =
     (case latest_transaction_datetime L m of
        Inl e \<Rightarrow> Inl e
      | Inr None \<Rightarrow> Inr None
      | Inr (Some dt) \<Rightarrow> Inr (Some (datetime_isoformat L dt)))"

text \<open>
  \<^verbatim>\<open>
  def date_entered(self):
      if self.fields is not None:
          for field in self.fields:
              if "008" in field:
                  return field["008"][:6]
  \<close>
\<close>

fun date_entered_loop :: "pyval list \<Rightarrow> pyerror + pyval" where
  "date_entered_loop [] = Inr PNone"
| "date_entered_loop (field # rest) =
     (case py_contains ''008'' field of
        Inl e \<Rightarrow> Inl e
      | Inr b \<Rightarrow>
          if b then
            (case py_getitem field ''008'' of Inl e \<Rightarrow> Inl e | Inr v \<Rightarrow> py_slice_to 6 v)
          else date_entered_loop rest)"

definition date_entered :: "VuFindMarcParser \<Rightarrow> pyerror + pyval" where
  "date_entered m =
     (case VuFindMarcParser_fields m of
        Inl e \<Rightarrow> Inl e
      | Inr fs \<Rightarrow>
          if fs \<noteq> PNone then
            (case py_iter fs of Inl e \<Rightarrow> Inl e | Inr xs \<Rightarrow> date_entered_loop xs)
          else Inr PNone)"

text \<open>
  \<^verbatim>\<open>
  def date_entered_date(self):
      date_entered = self.date_entered
      if date_entered is not None and len(date_entered.strip()) == 6:
          try:
              return datetime.datetime.strptime(date_entered, "%y%m%d").date()
          except ValueError:
              pass
  \<close>
\<close>

definition date_entered_date ::
    "('dt, 'd) pylib \<Rightarrow> VuFindMarcParser \<Rightarrow> pyerror + 'd option" where
  "date_entered_date L m =
     (case date_entered m of
        Inl e \<Rightarrow> Inl e
      | Inr de \<Rightarrow>
          if de \<noteq> PNone then
            (case py_strip de of
               Inl e \<Rightarrow> Inl e
             | Inr t \<Rightarrow>
                 if length t = 6 then
                   (case py_strptime L de ''%y%m%d'' of
                      Inr dt \<Rightarrow> Inr (Some (to_date L dt))
                    | Inl e \<Rightarrow> if e = ValueError then Inr None else Inl e)
                 else Inr None)
          else Inr None)"

text \<open>
  \<^verbatim>\<open>
  def date_entered_iso(self):
      date_entered_date = self.date_entered_date
      if date_entered_date is not None:
          return date_entered_date.isoformat()
  \<close>
\<close>

definition date_entered_iso ::
    "('dt, 'd) pylib \<Rightarrow> VuFindMarcParser \<Rightarrow> pyerror + string option" where
  "date_entered_iso L m =
     (case date_entered_date L m of
        Inl e \<Rightarrow> Inl e
      | Inr None \<Rightarrow> Inr None
      | Inr (Some d) \<Rightarrow> Inr (Some (date_isoformat L d)))"

section \<open>VuFindParser\<close>

record VuFindParser =
  raw :: pyval
  fields' :: "string list"
  marc :: "VuFindMarcParser option"

text \<open>
  \<^verbatim>\<open>
  def _names(self):
      if self.raw:
          names = list(self.raw.keys())
          names.sort()
          return names
      return []
  \<close>
  The function takes \<open>self.raw\<close>: the constructor calls it before the object is
  complete. The attribute \<open>fields\<close> of the source is the field \<open>fields'\<close> of the
  record (the record package reserves the plain name).
\<close>

definition VuFindParser_names :: "pyval \<Rightarrow> pyerror + string list" where
  "VuFindParser_names r =
     (if py_truthy r then
        (case py_keys r of Inl e \<Rightarrow> Inl e | Inr names \<Rightarrow> Inr (sort names))
      else Inr [])"

text \<open>
  \<^verbatim>\<open>
  def __init__(self, doc, marc=False):
      self.raw = doc
      self.fields = self._names()
      self.marc = None
      if marc:
          self.marc = VuFindMarcParser(doc)
  \<close>
\<close>

definition VuFindParser_init :: "pyval \<Rightarrow> bool \<Rightarrow> pyerror + VuFindParser" where
  "VuFindParser_init doc with_marc =
     (case VuFindParser_names doc of
        Inl e \<Rightarrow> Inl e
      | Inr names \<Rightarrow>
          if with_marc then
            (case VuFindMarcParser_init doc of
               Inl e \<Rightarrow> Inl e
             | Inr mp \<Rightarrow> Inr \<lparr>raw = doc, fields' = names, marc = Some mp\<rparr>)
          else Inr \<lparr>raw = doc, fields' = names, marc = None\<rparr>)"

text \<open>
  \<^verbatim>\<open>
  def _field(self, name):
      if self.raw and name in self.raw:
          return self.raw[name]
  \<close>
\<close>

definition VuFindParser_field :: "VuFindParser \<Rightarrow> string \<Rightarrow> pyerror + pyval" where
  "VuFindParser_field p name =
     (if py_truthy (raw p) then
        (case py_contains name (raw p) of
           Inl e \<Rightarrow> Inl e
         | Inr b \<Rightarrow> if b then py_getitem (raw p) name else Inr PNone)
      else Inr PNone)"

text \<open>\<^verbatim>\<open>def get(self, name): return self._field(name)\<close>\<close>

definition get :: "VuFindParser \<Rightarrow> string \<Rightarrow> pyerror + pyval" where
  "get p name = VuFindParser_field p name"

text \<open>The properties of the source that the claims below read.\<close>

definition first_indexed :: "VuFindParser \<Rightarrow> pyerror + pyval" where
  "first_indexed p = VuFindParser_field p ''first_indexed''"

definition last_indexed :: "VuFindParser \<Rightarrow> pyerror + pyval" where
  "last_indexed p = VuFindParser_field p ''last_indexed''"

definition VuFindParser_fullrecord :: "VuFindParser \<Rightarrow> pyerror + pyval" where
  "VuFindParser_fullrecord p = VuFindParser_field p ''fullrecord''"

definition hierarchy_top_id :: "VuFindParser \<Rightarrow> pyerror + pyval" where
  "hierarchy_top_id p = VuFindParser_field p ''hierarchy_top_id''"

definition hierarchy_parent_id :: "VuFindParser \<Rightarrow> pyerror + pyval" where
  "hierarchy_parent_id p = VuFindParser_field p ''hierarchy_top_id''"

text \<open>
  \<^verbatim>\<open>
  def first_indexed_datetime(self):
      timestamp = self.last_indexed
      if timestamp:
          return dateutil.parser.isoparse(timestamp)
  \<close>
\<close>

definition first_indexed_datetime ::
    "('dt, 'd) pylib \<Rightarrow> VuFindParser \<Rightarrow> pyerror + 'dt option" where
  "first_indexed_datetime L p =
     (case last_indexed p of
        Inl e \<Rightarrow> Inl e
      | Inr timestamp \<Rightarrow>
          if py_truthy timestamp then
            (case isoparse L timestamp of Inl e \<Rightarrow> Inl e | Inr dt \<Rightarrow> Inr (Some dt))
          else Inr None)"

text \<open>
  \<^verbatim>\<open>
  def last_indexed_datetime(self):
      timestamp = self.last_indexed
      if timestamp:
          return dateutil.parser.isoparse(timestamp)
  \<close>
\<close>

definition last_indexed_datetime ::
    "('dt, 'd) pylib \<Rightarrow> VuFindParser \<Rightarrow> pyerror + 'dt option" where
  "last_indexed_datetime L p =
     (case last_indexed p of
        Inl e \<Rightarrow> Inl e
      | Inr timestamp \<Rightarrow>
          if py_truthy timestamp then
            (case isoparse L timestamp of Inl e \<Rightarrow> Inl e | Inr dt \<Rightarrow> Inr (Some dt))
          else Inr None)"

text \<open>
  The MARC properties of \<open>VuFindParser\<close>, each of the form
  \<^verbatim>\<open>
  def marc_latest_transaction(self):
      if self.marc is not None:
          return self.marc.latest_transaction
  \<close>
\<close>

definition marc_latest_transaction :: "VuFindParser \<Rightarrow> pyerror + pyval" where
  "marc_latest_transaction p =
     (case marc p of Some m \<Rightarrow> latest_transaction m | None \<Rightarrow> Inr PNone)"

definition marc_latest_transaction_datetime ::
    "('dt, 'd) pylib \<Rightarrow> VuFindParser \<Rightarrow> pyerror + 'dt option" where
  "marc_latest_transaction_datetime L p =
     (case marc p of Some m \<Rightarrow> latest_transaction_datetime L m | None \<Rightarrow> Inr None)"

definition marc_latest_transaction_iso ::
    "('dt, 'd) pylib \<Rightarrow> VuFindParser \<Rightarrow> pyerror + string option" where
  "marc_latest_transaction_iso L p =
     (case marc p of Some m \<Rightarrow> latest_transaction_iso L m | None \<Rightarrow> Inr None)"

definition marc_date_entered :: "VuFindParser \<Rightarrow> pyerror + pyval" where
  "marc_date_entered p =
     (case marc p of Some m \<Rightarrow> date_entered m | None \<Rightarrow> Inr PNone)"

definition marc_date_entered_date ::
    "('dt, 'd) pylib \<Rightarrow> VuFindParser \<Rightarrow> pyerror + 'd option" where
  "marc_date_entered_date L p =
     (case marc p of Some m \<Rightarrow> date_entered_date L m | None \<Rightarrow> Inr None)"

definition marc_date_entered_iso ::
    "('dt, 'd) pylib \<Rightarrow> VuFindParser \<Rightarrow> pyerror + string option" where
  "marc_date_entered_iso L p =
     (case marc p of Some m \<Rightarrow> date_entered_iso L m | None \<Rightarrow> Inr None)"

section \<open>A library instance for concrete runs\<close>

text \<open>
  To run the model on concrete documents the parameter needs a value. This instance
  reads zero-padded fields of fixed width only: \<open>YYYY-MM-DDThh:mm:ssZ\<close> for
  \<open>isoparse\<close>, and the two formats the source passes to \<open>strptime\<close>, with the
  POSIX pivot for a two-digit year (69 to 99 are 1969 to 1999). Every text it accepts,
  the Python libraries accept with the same result; they accept more.
\<close>

datatype pytz = Naive | UTC

datatype pydate = Date nat nat nat

datatype pydatetime = DateTime nat nat nat nat nat nat pytz

definition digit_of :: "char \<Rightarrow> nat option" where
  "digit_of c = map_of (zip ''0123456789'' [0, 1, 2, 3, 4, 5, 6, 7, 8, 9]) c"

fun number_of :: "nat \<Rightarrow> string \<Rightarrow> nat option" where
  "number_of n [] = Some n"
| "number_of n (c # cs) =
     (case digit_of c of None \<Rightarrow> None | Some d \<Rightarrow> number_of (10 * n + d) cs)"

fun fixed_fields :: "nat list \<Rightarrow> string \<Rightarrow> nat list option" where
  "fixed_fields [] s = (if s = [] then Some [] else None)"
| "fixed_fields (w # ws) s =
     (if length s < w then None
      else (case number_of 0 (take w s) of
              None \<Rightarrow> None
            | Some n \<Rightarrow>
                (case fixed_fields ws (drop w s) of
                   None \<Rightarrow> None
                 | Some ns \<Rightarrow> Some (n # ns))))"

definition days_in_month :: "nat \<Rightarrow> nat \<Rightarrow> nat" where
  "days_in_month y m =
     (if m = 2 then
        (if y mod 4 = 0 \<and> (y mod 400 = 0 \<or> y mod 100 \<noteq> 0) then 29 else 28)
      else if m = 4 \<or> m = 6 \<or> m = 9 \<or> m = 11 then 30
      else 31)"

fun check_datetime :: "pytz \<Rightarrow> nat list \<Rightarrow> pyerror + pydatetime" where
  "check_datetime tz [y, mo, d, h, mi, s] =
     (if 1 \<le> y \<and> 1 \<le> mo \<and> mo \<le> 12 \<and> 1 \<le> d \<and> d \<le> days_in_month y mo \<and>
         h < 24 \<and> mi < 60 \<and> s < 60
      then Inr (DateTime y mo d h mi s tz) else Inl ValueError)"
| "check_datetime tz ns = Inl ValueError"

definition fixed_isoparse :: "pyval \<Rightarrow> pyerror + pydatetime" where
  "fixed_isoparse v =
     (case v of
        PStr s \<Rightarrow>
          if length s = 20 \<and>
             [s ! 4, s ! 7, s ! 10, s ! 13, s ! 16, s ! 19] = ''--T::Z''
          then
            (case fixed_fields [4, 2, 2, 2, 2, 2]
                    (take 4 s @ take 2 (drop 5 s) @ take 2 (drop 8 s) @
                     take 2 (drop 11 s) @ take 2 (drop 14 s) @ take 2 (drop 17 s)) of
               Some ns \<Rightarrow> check_datetime UTC ns
             | None \<Rightarrow> Inl ValueError)
          else Inl ValueError
      | _ \<Rightarrow> Inl TypeError)"

definition fixed_strptime :: "string \<Rightarrow> string \<Rightarrow> pyerror + pydatetime" where
  "fixed_strptime s fmt =
     (if fmt = ''%Y%m%d%H%M%S.0'' then
        (if length s = 16 \<and> drop 14 s = ''.0'' then
           (case fixed_fields [4, 2, 2, 2, 2, 2] (take 14 s) of
              Some ns \<Rightarrow> check_datetime Naive ns
            | None \<Rightarrow> Inl ValueError)
         else Inl ValueError)
      else if fmt = ''%y%m%d'' then
        (case fixed_fields [2, 2, 2] s of
           Some [y, mo, d] \<Rightarrow>
             check_datetime Naive [if y < 69 then 2000 + y else 1900 + y, mo, d, 0, 0, 0]
         | _ \<Rightarrow> Inl ValueError)
      else Inl ValueError)"

fun pad :: "nat \<Rightarrow> nat \<Rightarrow> string" where
  "pad 0 n = []"
| "pad (Suc w) n = pad w (n div 10) @ [''0123456789'' ! (n mod 10)]"

fun fixed_to_date :: "pydatetime \<Rightarrow> pydate" where
  "fixed_to_date (DateTime y mo d h mi s tz) = Date y mo d"

fun fixed_date_isoformat :: "pydate \<Rightarrow> string" where
  "fixed_date_isoformat (Date y mo d) = pad 4 y @ ''-'' @ pad 2 mo @ ''-'' @ pad 2 d"

fun fixed_datetime_isoformat :: "pydatetime \<Rightarrow> string" where
  "fixed_datetime_isoformat (DateTime y mo d h mi s tz) =
     pad 4 y @ ''-'' @ pad 2 mo @ ''-'' @ pad 2 d @ ''T'' @
     pad 2 h @ '':'' @ pad 2 mi @ '':'' @ pad 2 s @
     (case tz of Naive \<Rightarrow> [] | UTC \<Rightarrow> ''+00:00'')"

definition fixed_lib :: "(pydatetime, pydate) pylib" where
  "fixed_lib =
     \<lparr>isoparse = fixed_isoparse, strptime = fixed_strptime, to_date = fixed_to_date,
      datetime_isoformat = fixed_datetime_isoformat,
      date_isoformat = fixed_date_isoformat\<rparr>"

section \<open>Shapes of values named in the properties\<close>

text \<open>
  A stored \<open>fullrecord\<close> that the guards of \<open>VuFindMarcParser.fields\<close> turn away:
  anything that is not a dict itself, a dict without the key \<open>fields\<close>, and a dict
  with \<open>None\<close> under that key.
\<close>

definition fullrecord_unusable :: "pyval \<Rightarrow> bool" where
  "fullrecord_unusable fr =
     (case fr of
        PDict kvs \<Rightarrow> (case map_of kvs ''fields'' of None \<Rightarrow> True | Some v \<Rightarrow> v = PNone)
      | _ \<Rightarrow> True)"

text \<open>\<^verbatim>\<open>isinstance(x, str)\<close>\<close>

fun py_is_str :: "pyval \<Rightarrow> bool" where
  "py_is_str (PStr s) = True"
| "py_is_str (PList xs) = False"
| "py_is_str (PDict kvs) = False"
| "py_is_str (PDictSub c kvs) = False"
| "py_is_str PNone = False"
| "py_is_str (PBool b) = False"
| "py_is_str (PInt i) = False"

section \<open>Construction and lookup on a dict document\<close>

lemma VuFindMarcParser_init_dict:
  "VuFindMarcParser_init (PDict kvs) =
     Inr \<lparr>fullrecord = (case map_of kvs ''fullrecord'' of Some v \<Rightarrow> v | None \<Rightarrow> PNone)\<rparr>"
  by (simp add: VuFindMarcParser_init_def split: option.splits)

lemma VuFindParser_names_dict:
  "VuFindParser_names (PDict kvs) = Inr (sort (remdups (map fst kvs)))"
  by (cases kvs) (simp_all add: VuFindParser_names_def)

lemma VuFindParser_init_dict:
  "VuFindParser_init (PDict kvs) w =
     Inr \<lparr>raw = PDict kvs, fields' = sort (remdups (map fst kvs)),
          marc = (if w then Some \<lparr>fullrecord =
                    (case map_of kvs ''fullrecord'' of Some v \<Rightarrow> v | None \<Rightarrow> PNone)\<rparr>
                  else None)\<rparr>"
  by (simp add: VuFindParser_init_def VuFindParser_names_dict VuFindMarcParser_init_dict)

lemma VuFindParser_init_None_no_marc:
  "VuFindParser_init PNone False = Inr \<lparr>raw = PNone, fields' = [], marc = None\<rparr>"
  by (simp add: VuFindParser_init_def VuFindParser_names_def)

lemma VuFindParser_init_raw:
  "VuFindParser_init doc w = Inr p \<Longrightarrow> raw p = doc"
  by (auto simp: VuFindParser_init_def split: sum.splits if_splits)

lemma VuFindParser_field_dict:
  "raw p = PDict kvs \<Longrightarrow>
   VuFindParser_field p name = Inr (case map_of kvs name of Some v \<Rightarrow> v | None \<Rightarrow> PNone)"
  by (cases kvs) (auto simp: VuFindParser_field_def split: option.splits)

text \<open>
  Claim C1: constructing a \<open>VuFindParser\<close> never fails; for the absent document with
  MARC parsing requested it succeeds with no field names and no MARC parser.
  The source at that input, \<^verbatim>\<open>VuFindParser(None, marc=True)\<close>: \<open>_names\<close> returns the
  empty list, then \<open>VuFindMarcParser.__init__\<close> evaluates \<^verbatim>\<open>"fullrecord" in None\<close>,
  which raises \<open>TypeError\<close>. (The lemmas above are the rest of the claim: a dict
  document constructs with either flag, the absent document without MARC.)
\<close>

theorem C1_init_absent_document_with_marc:
  "VuFindParser_init PNone True = Inl TypeError"
  by (simp add: VuFindParser_init_def VuFindParser_names_def VuFindMarcParser_init_def)

section \<open>The MARC parser on unusable records\<close>

lemma VuFindMarcParser_fields_shape:
  "VuFindMarcParser_fields m =
     (case fullrecord m of
        PDict kvs \<Rightarrow> (case map_of kvs ''fields'' of Some v \<Rightarrow> Inr v | None \<Rightarrow> Inr PNone)
      | _ \<Rightarrow> Inr PNone)"
  by (cases "fullrecord m") (auto simp: VuFindMarcParser_fields_def split: option.splits)

lemma fields_unusable:
  "fullrecord_unusable (fullrecord m) \<Longrightarrow> VuFindMarcParser_fields m = Inr PNone"
  by (auto simp: VuFindMarcParser_fields_shape fullrecord_unusable_def
      split: pyval.splits option.splits)

lemma marc_absent:
  assumes "VuFindMarcParser_fields m = Inr PNone"
  shows "latest_transaction m = Inr PNone"
    and "latest_transaction_datetime L m = Inr None"
    and "latest_transaction_iso L m = Inr None"
    and "date_entered m = Inr PNone"
    and "date_entered_date L m = Inr None"
    and "date_entered_iso L m = Inr None"
  using assms
  by (simp_all add: latest_transaction_def latest_transaction_datetime_def
       latest_transaction_iso_def date_entered_def date_entered_date_def date_entered_iso_def)

text \<open>
  Claim C2, as the source has it: for every dict document whose \<open>fullrecord\<close> value
  is missing, is not a dict itself (a list, a text, a number, an instance of a dict
  subclass), or is a dict with no \<open>fields\<close> key or with \<open>None\<close> under it, the MARC
  parser is constructed and each of its seven properties returns \<open>None\<close>; nothing is
  raised.
\<close>

theorem C2_unusable_fullrecord_all_absent:
  assumes "fullrecord_unusable (case map_of kvs ''fullrecord'' of Some v \<Rightarrow> v | None \<Rightarrow> PNone)"
  shows "\<exists>m. VuFindMarcParser_init (PDict kvs) = Inr m \<and>
     VuFindMarcParser_fields m = Inr PNone \<and>
     latest_transaction m = Inr PNone \<and>
     latest_transaction_datetime L m = Inr None \<and>
     latest_transaction_iso L m = Inr None \<and>
     date_entered m = Inr PNone \<and>
     date_entered_date L m = Inr None \<and>
     date_entered_iso L m = Inr None"
proof -
  let ?m = "\<lparr>fullrecord = (case map_of kvs ''fullrecord'' of Some v \<Rightarrow> v | None \<Rightarrow> PNone)\<rparr>"
  have f: "VuFindMarcParser_fields ?m = Inr PNone"
    using assms by (simp add: fields_unusable)
  show ?thesis
    by (simp add: VuFindMarcParser_init_dict f marc_absent [OF f])
qed

text \<open>The theorem at a document whose \<open>fullrecord\<close> is a list.\<close>

theorem C2_unusable_fullrecord_witness:
  "fullrecord_unusable (PList [PStr ''005'']) \<and>
   (\<exists>m. VuFindMarcParser_init
          (PDict [(''id'', PStr ''1''), (''fullrecord'', PList [PStr ''005''])]) = Inr m \<and>
     VuFindMarcParser_fields m = Inr PNone \<and>
     latest_transaction m = Inr PNone \<and>
     latest_transaction_datetime fixed_lib m = Inr None \<and>
     latest_transaction_iso fixed_lib m = Inr None \<and>
     date_entered m = Inr PNone \<and>
     date_entered_date fixed_lib m = Inr None \<and>
     date_entered_iso fixed_lib m = Inr None)"
  using C2_unusable_fullrecord_all_absent
    [of "[(''id'', PStr ''1''), (''fullrecord'', PList [PStr ''005''])]" fixed_lib]
  by (simp add: fullrecord_unusable_def)

text \<open>
  Claim C2 as the specification states it fails where \<open>fullrecord\<close> is a dict whose
  \<open>fields\<close> value is a sequence of values that are not mappings: for
  \<^verbatim>\<open>{"fullrecord": {"fields": [5]}}\<close> the property \<open>fields\<close> returns the list, and
  both scans raise \<open>TypeError\<close> at \<^verbatim>\<open>"005" in 5\<close> and \<^verbatim>\<open>"008" in 5\<close>.
\<close>

theorem C2_fields_of_non_mappings_counterexample:
  "VuFindMarcParser_init (PDict [(''fullrecord'', PDict [(''fields'', PList [PInt 5])])]) =
     Inr \<lparr>fullrecord = PDict [(''fields'', PList [PInt 5])]\<rparr> \<and>
   VuFindMarcParser_fields \<lparr>fullrecord = PDict [(''fields'', PList [PInt 5])]\<rparr> =
     Inr (PList [PInt 5]) \<and>
   latest_transaction \<lparr>fullrecord = PDict [(''fields'', PList [PInt 5])]\<rparr> = Inl TypeError \<and>
   date_entered \<lparr>fullrecord = PDict [(''fields'', PList [PInt 5])]\<rparr> = Inl TypeError"
  by (simp add: VuFindMarcParser_init_def VuFindMarcParser_fields_def latest_transaction_def
      date_entered_def)

section \<open>The member marc\<close>

text \<open>
  Claim C3, as the source has it: whenever construction returns, the member \<open>marc\<close>
  is set exactly when MARC parsing was requested; the truth value of the document plays
  no part. Every dict document, the empty one too, constructs with either flag.
\<close>

theorem C3_marc_present_iff_requested:
  "(VuFindParser_init doc w = Inr p \<longrightarrow> (marc p \<noteq> None) = w) \<and>
   (\<exists>q. VuFindParser_init (PDict kvs) w = Inr q \<and> (marc q \<noteq> None) = w)"
proof -
  have "(marc p \<noteq> None) = w" if "VuFindParser_init doc w = Inr p"
    using that by (auto simp: VuFindParser_init_def split: sum.splits if_splits)
  then show ?thesis
    by (simp add: VuFindParser_init_dict)
qed

theorem C3_marc_present_witness:
  "VuFindParser_init (PDict []) True =
     Inr \<lparr>raw = PDict [], fields' = [], marc = Some \<lparr>fullrecord = PNone\<rparr>\<rparr> \<and>
   (marc \<lparr>raw = PDict [], fields' = [], marc = Some \<lparr>fullrecord = PNone\<rparr>\<rparr> \<noteq> None) = True"
  using C3_marc_present_iff_requested
    [of "PDict []" True "\<lparr>raw = PDict [], fields' = [], marc = Some \<lparr>fullrecord = PNone\<rparr>\<rparr>"]
  by (simp add: VuFindParser_init_dict)

text \<open>
  Claim C3 as the specification states it fails at the empty document with MARC
  parsing requested: \<^verbatim>\<open>VuFindParser({}, marc=True)\<close> holds a \<open>VuFindMarcParser\<close>,
  although the document is not truthy.
\<close>

theorem C3_empty_document_counterexample:
  "VuFindParser_init (PDict []) True =
     Inr \<lparr>raw = PDict [], fields' = [], marc = Some \<lparr>fullrecord = PNone\<rparr>\<rparr> \<and>
   \<not> py_truthy (PDict [])"
  by (simp add: VuFindParser_init_def VuFindParser_names_def VuFindMarcParser_init_def)

section \<open>The index timestamps\<close>

lemma indexed_datetime_dict:
  assumes "raw p = PDict kvs"
  shows "last_indexed_datetime L p =
     (case map_of kvs ''last_indexed'' of
        None \<Rightarrow> Inr None
      | Some v \<Rightarrow>
          if py_truthy v
          then (case isoparse L v of Inl e \<Rightarrow> Inl e | Inr dt \<Rightarrow> Inr (Some dt))
          else Inr None)"
    and "first_indexed_datetime L p =
     (case map_of kvs ''last_indexed'' of
        None \<Rightarrow> Inr None
      | Some v \<Rightarrow>
          if py_truthy v
          then (case isoparse L v of Inl e \<Rightarrow> Inl e | Inr dt \<Rightarrow> Inr (Some dt))
          else Inr None)"
  by (simp_all add: last_indexed_datetime_def first_indexed_datetime_def last_indexed_def
       VuFindParser_field_dict [OF assms] split: option.splits)

text \<open>
  Claim C4: \<open>first_indexed_datetime\<close> is computed from the field \<open>last_indexed\<close>, not
  from \<open>first_indexed\<close>. The two properties agree on every parser; on a parser built
  from a dict document whose \<open>last_indexed\<close> is a text the ISO parser accepts (a
  non-empty text: no ISO-8601 timestamp is empty) both return the parsed instant, and
  both return \<open>None\<close> when the key \<open>last_indexed\<close> is missing, whatever is stored
  under \<open>first_indexed\<close>.
\<close>

theorem C4_first_indexed_datetime_reads_last_indexed:
  "first_indexed_datetime L p = last_indexed_datetime L p \<and>
   (VuFindParser_init (PDict kvs) w = Inr q \<longrightarrow>
      (map_of kvs ''last_indexed'' = Some (PStr t) \<and> t \<noteq> [] \<and>
       isoparse L (PStr t) = Inr dt \<longrightarrow>
         first_indexed_datetime L q = Inr (Some dt) \<and>
         last_indexed_datetime L q = Inr (Some dt)) \<and>
      (map_of kvs ''last_indexed'' = None \<longrightarrow>
         first_indexed_datetime L q = Inr None \<and> last_indexed_datetime L q = Inr None))"
proof -
  have "first_indexed_datetime L p = last_indexed_datetime L p"
    by (simp add: first_indexed_datetime_def last_indexed_datetime_def)
  moreover have "raw q = PDict kvs" if "VuFindParser_init (PDict kvs) w = Inr q"
    using that by (rule VuFindParser_init_raw)
  ultimately show ?thesis
    by (auto simp: indexed_datetime_dict)
qed

text \<open>
  The theorem at \<^verbatim>\<open>{"first_indexed": "2020-01-01T00:00:00Z", "last_indexed":
  "2023-05-01T12:00:00Z"}\<close>, where both properties give the instant of
  \<open>last_indexed\<close>, and at \<^verbatim>\<open>{"first_indexed": "2020-01-01T00:00:00Z"}\<close>, where
  both give \<open>None\<close>.
\<close>

theorem C4_first_indexed_datetime_witness:
  "first_indexed_datetime fixed_lib
     \<lparr>raw = PDict [(''first_indexed'', PStr ''2020-01-01T00:00:00Z''),
                   (''last_indexed'', PStr ''2023-05-01T12:00:00Z'')],
      fields' = [''first_indexed'', ''last_indexed''], marc = None\<rparr> =
     Inr (Some (DateTime 2023 5 1 12 0 0 UTC)) \<and>
   last_indexed_datetime fixed_lib
     \<lparr>raw = PDict [(''first_indexed'', PStr ''2020-01-01T00:00:00Z''),
                   (''last_indexed'', PStr ''2023-05-01T12:00:00Z'')],
      fields' = [''first_indexed'', ''last_indexed''], marc = None\<rparr> =
     Inr (Some (DateTime 2023 5 1 12 0 0 UTC)) \<and>
   first_indexed_datetime fixed_lib
     \<lparr>raw = PDict [(''first_indexed'', PStr ''2020-01-01T00:00:00Z'')],
      fields' = [''first_indexed''], marc = None\<rparr> = Inr None \<and>
   last_indexed_datetime fixed_lib
     \<lparr>raw = PDict [(''first_indexed'', PStr ''2020-01-01T00:00:00Z'')],
      fields' = [''first_indexed''], marc = None\<rparr> = Inr None"
proof -
  have init2: "VuFindParser_init
      (PDict [(''first_indexed'', PStr ''2020-01-01T00:00:00Z''),
              (''last_indexed'', PStr ''2023-05-01T12:00:00Z'')]) False =
      Inr \<lparr>raw = PDict [(''first_indexed'', PStr ''2020-01-01T00:00:00Z''),
                        (''last_indexed'', PStr ''2023-05-01T12:00:00Z'')],
           fields' = [''first_indexed'', ''last_indexed''], marc = None\<rparr>"
    by code_simp
  have init1: "VuFindParser_init
      (PDict [(''first_indexed'', PStr ''2020-01-01T00:00:00Z'')]) False =
      Inr \<lparr>raw = PDict [(''first_indexed'', PStr ''2020-01-01T00:00:00Z'')],
           fields' = [''first_indexed''], marc = None\<rparr>"
    by code_simp
  have parse: "isoparse fixed_lib (PStr ''2023-05-01T12:00:00Z'') =
      Inr (DateTime 2023 5 1 12 0 0 UTC)"
    by code_simp
  show ?thesis
    using
      C4_first_indexed_datetime_reads_last_indexed
        [where L = fixed_lib and w = False
           and kvs = "[(''first_indexed'', PStr ''2020-01-01T00:00:00Z''),
                       (''last_indexed'', PStr ''2023-05-01T12:00:00Z'')]"
           and t = "''2023-05-01T12:00:00Z''" and dt = "DateTime 2023 5 1 12 0 0 UTC"
           and q = "\<lparr>raw = PDict [(''first_indexed'', PStr ''2020-01-01T00:00:00Z''),
                                    (''last_indexed'', PStr ''2023-05-01T12:00:00Z'')],
                       fields' = [''first_indexed'', ''last_indexed''], marc = None\<rparr>"]
      C4_first_indexed_datetime_reads_last_indexed
        [where L = fixed_lib and w = False
           and kvs = "[(''first_indexed'', PStr ''2020-01-01T00:00:00Z'')]"
           and q = "\<lparr>raw = PDict [(''first_indexed'', PStr ''2020-01-01T00:00:00Z'')],
                       fields' = [''first_indexed''], marc = None\<rparr>"]
      init2 init1 parse
    by simp
qed

text \<open>
  Claim C5, as the source has it: on a parser built from a dict document whose
  \<open>last_indexed\<close> value is truthy (for a text: non-empty) and is turned away by the
  ISO parser, \<open>last_indexed_datetime\<close> and \<open>first_indexed_datetime\<close> raise the
  parser's error; when the value is present but not truthy (the empty text), the parser
  is not called and both return \<open>None\<close>.
\<close>

theorem C5_malformed_timestamp_raises:
  "VuFindParser_init (PDict kvs) w = Inr q \<Longrightarrow> map_of kvs ''last_indexed'' = Some v \<Longrightarrow>
   (py_truthy v \<longrightarrow> isoparse L v = Inl e \<longrightarrow>
      last_indexed_datetime L q = Inl e \<and> first_indexed_datetime L q = Inl e) \<and>
   (\<not> py_truthy v \<longrightarrow>
      last_indexed_datetime L q = Inr None \<and> first_indexed_datetime L q = Inr None)"
  by (auto simp: indexed_datetime_dict dest!: VuFindParser_init_raw)

text \<open>The theorem at \<^verbatim>\<open>{"last_indexed": "not-a-date"}\<close>.\<close>

theorem C5_malformed_timestamp_witness:
  "last_indexed_datetime fixed_lib
     \<lparr>raw = PDict [(''last_indexed'', PStr ''not-a-date'')],
      fields' = [''last_indexed''], marc = None\<rparr> = Inl ValueError \<and>
   first_indexed_datetime fixed_lib
     \<lparr>raw = PDict [(''last_indexed'', PStr ''not-a-date'')],
      fields' = [''last_indexed''], marc = None\<rparr> = Inl ValueError"
proof -
  have init: "VuFindParser_init (PDict [(''last_indexed'', PStr ''not-a-date'')]) False =
      Inr \<lparr>raw = PDict [(''last_indexed'', PStr ''not-a-date'')],
           fields' = [''last_indexed''], marc = None\<rparr>"
    by code_simp
  have parse: "isoparse fixed_lib (PStr ''not-a-date'') = Inl ValueError"
    by code_simp
  show ?thesis
    using
      C5_malformed_timestamp_raises
        [where L = fixed_lib and w = False and e = ValueError
           and kvs = "[(''last_indexed'', PStr ''not-a-date'')]"
           and v = "PStr ''not-a-date''"
           and q = "\<lparr>raw = PDict [(''last_indexed'', PStr ''not-a-date'')],
                       fields' = [''last_indexed''], marc = None\<rparr>"]
      init parse
    by simp
qed

text \<open>
  Claim C5 as the specification states it fails at \<^verbatim>\<open>{"last_indexed": ""}\<close>: the
  empty text is present and is no ISO-8601 timestamp (the parser turns it away), yet
  both properties return \<open>None\<close>, because \<^verbatim>\<open>if timestamp:\<close> is false.
\<close>

theorem C5_empty_timestamp_counterexample:
  "VuFindParser_init (PDict [(''last_indexed'', PStr '''')]) False =
     Inr \<lparr>raw = PDict [(''last_indexed'', PStr '''')],
          fields' = [''last_indexed''], marc = None\<rparr> \<and>
   isoparse fixed_lib (PStr '''') = Inl ValueError \<and>
   last_indexed_datetime fixed_lib
     \<lparr>raw = PDict [(''last_indexed'', PStr '''')],
      fields' = [''last_indexed''], marc = None\<rparr> = Inr None \<and>
   first_indexed_datetime fixed_lib
     \<lparr>raw = PDict [(''last_indexed'', PStr '''')],
      fields' = [''last_indexed''], marc = None\<rparr> = Inr None"
  by code_simp

section \<open>The MARC control fields\<close>

text \<open>
  Claim C6: \<open>latest_transaction_datetime\<close> hands a present \<open>latest_transaction\<close>
  text to \<open>strptime\<close> with the fixed format \<^verbatim>\<open>%Y%m%d%H%M%S.0\<close> (year, month, day,
  hour, minute, second, then a literal point and zero) and returns what it parses; when
  \<open>strptime\<close> fails on the text (\<open>ValueError\<close>) the failure is swallowed and the
  result is \<open>None\<close>; it is \<open>None\<close> too when \<open>latest_transaction\<close> is \<open>None\<close>.
\<close>

theorem C6_latest_transaction_datetime:
  "DT005 = ''%Y%m%d%H%M%S.0'' \<and>
   (latest_transaction m = Inr (PStr s) \<longrightarrow>
      (strptime L s DT005 = Inr dt \<longrightarrow> latest_transaction_datetime L m = Inr (Some dt)) \<and>
      (strptime L s DT005 = Inl ValueError \<longrightarrow> latest_transaction_datetime L m = Inr None)) \<and>
   (latest_transaction m = Inr PNone \<longrightarrow> latest_transaction_datetime L m = Inr None)"
  by (simp add: latest_transaction_datetime_def DT005_def)

text \<open>
  The theorem at a record with \<^verbatim>\<open>{"005": "20230501123045.0"}\<close> (parsed), at one
  with \<^verbatim>\<open>{"005": "2023-05-01"}\<close> (the failure swallowed) and at one without a 005
  entry.
\<close>

theorem C6_latest_transaction_datetime_witness:
  "latest_transaction_datetime fixed_lib
     \<lparr>fullrecord = PDict [(''fields'', PList [PDict [(''005'', PStr ''20230501123045.0'')]])]\<rparr> =
     Inr (Some (DateTime 2023 5 1 12 30 45 Naive)) \<and>
   latest_transaction_datetime fixed_lib
     \<lparr>fullrecord = PDict [(''fields'', PList [PDict [(''005'', PStr ''2023-05-01'')]])]\<rparr> =
     Inr None \<and>
   latest_transaction_datetime fixed_lib
     \<lparr>fullrecord = PDict [(''fields'', PList [PDict [(''001'', PStr ''a1'')]])]\<rparr> =
     Inr None"
proof -
  have lt1: "latest_transaction
      \<lparr>fullrecord = PDict [(''fields'', PList [PDict [(''005'', PStr ''20230501123045.0'')]])]\<rparr> =
      Inr (PStr ''20230501123045.0'')"
    by code_simp
  have p1: "strptime fixed_lib ''20230501123045.0'' DT005 =
      Inr (DateTime 2023 5 1 12 30 45 Naive)"
    by code_simp
  have lt2: "latest_transaction
      \<lparr>fullrecord = PDict [(''fields'', PList [PDict [(''005'', PStr ''2023-05-01'')]])]\<rparr> =
      Inr (PStr ''2023-05-01'')"
    by code_simp
  have p2: "strptime fixed_lib ''2023-05-01'' DT005 = Inl ValueError"
    by code_simp
  have lt3: "latest_transaction
      \<lparr>fullrecord = PDict [(''fields'', PList [PDict [(''001'', PStr ''a1'')]])]\<rparr> = Inr PNone"
    by code_simp
  show ?thesis
    using
      C6_latest_transaction_datetime
        [where L = fixed_lib and s = "''20230501123045.0''"
           and dt = "DateTime 2023 5 1 12 30 45 Naive"
           and m = "\<lparr>fullrecord =
                      PDict [(''fields'', PList [PDict [(''005'', PStr ''20230501123045.0'')]])]\<rparr>"]
      C6_latest_transaction_datetime
        [where L = fixed_lib and s = "''2023-05-01''"
           and m = "\<lparr>fullrecord =
                      PDict [(''fields'', PList [PDict [(''005'', PStr ''2023-05-01'')]])]\<rparr>"]
      C6_latest_transaction_datetime
        [where L = fixed_lib
           and m = "\<lparr>fullrecord =
                      PDict [(''fields'', PList [PDict [(''001'', PStr ''a1'')]])]\<rparr>"]
      lt1 p1 lt2 p2 lt3
    by simp
qed

lemma date_entered_loop_first:
  assumes "\<forall>f \<in> set pre. py_contains ''008'' f = Inr False"
    and "py_contains ''008'' x = Inr True"
  shows "date_entered_loop (pre @ x # rest) =
     (case py_getitem x ''008'' of Inl e \<Rightarrow> Inl e | Inr v \<Rightarrow> py_slice_to 6 v)"
  using assms by (induction pre) simp_all

text \<open>
  Claim C7: when \<open>fields\<close> is a list and the first element that contains the key
  \<open>008\<close> is a dict with a text \<open>s\<close> under it, \<open>date_entered\<close> is the first six
  characters of \<open>s\<close>, with no check of the length: a text of at most six characters
  comes back whole. And \<open>date_entered_date\<close> is \<open>None\<close> whenever \<open>date_entered\<close>
  is a text whose stripped length is not six.
\<close>

theorem C7_date_entered_slice:
  "(VuFindMarcParser_fields m = Inr (PList (pre @ PDict kvs # rest)) \<and>
    (\<forall>f \<in> set pre. py_contains ''008'' f = Inr False) \<and>
    map_of kvs ''008'' = Some (PStr s) \<longrightarrow>
      date_entered m = Inr (PStr (take 6 s)) \<and>
      (length s \<le> 6 \<longrightarrow> date_entered m = Inr (PStr s))) \<and>
   (date_entered m = Inr (PStr t) \<and> length (str_strip t) \<noteq> 6 \<longrightarrow>
      date_entered_date L m = Inr None)"
proof -
  have "date_entered m = Inr (PStr (take 6 s))"
    if "VuFindMarcParser_fields m = Inr (PList (pre @ PDict kvs # rest))"
      and "\<forall>f \<in> set pre. py_contains ''008'' f = Inr False"
      and "map_of kvs ''008'' = Some (PStr s)"
    using that by (simp add: date_entered_def date_entered_loop_first)
  moreover have "date_entered_date L m = Inr None"
    if "date_entered m = Inr (PStr t)" and "length (str_strip t) \<noteq> 6"
    using that by (simp add: date_entered_date_def)
  ultimately show ?thesis by auto
qed

text \<open>
  The theorem at \<^verbatim>\<open>{"fields": [{"001": "a1"}, {"008": "2305"}, {"008": "991231"}]}\<close>:
  \<open>date_entered\<close> is \<^verbatim>\<open>"2305"\<close> and \<open>date_entered_date\<close> is \<open>None\<close>.
\<close>

theorem C7_date_entered_witness:
  "date_entered
     \<lparr>fullrecord = PDict [(''fields'',
        PList [PDict [(''001'', PStr ''a1'')], PDict [(''008'', PStr ''2305'')],
               PDict [(''008'', PStr ''991231'')]])]\<rparr> = Inr (PStr ''2305'') \<and>
   length (str_strip ''2305'') = 4 \<and>
   date_entered_date fixed_lib
     \<lparr>fullrecord = PDict [(''fields'',
        PList [PDict [(''001'', PStr ''a1'')], PDict [(''008'', PStr ''2305'')],
               PDict [(''008'', PStr ''991231'')]])]\<rparr> = Inr None"
proof -
  have f: "VuFindMarcParser_fields
      \<lparr>fullrecord = PDict [(''fields'',
         PList [PDict [(''001'', PStr ''a1'')], PDict [(''008'', PStr ''2305'')],
                PDict [(''008'', PStr ''991231'')]])]\<rparr> =
      Inr (PList ([PDict [(''001'', PStr ''a1'')]] @ PDict [(''008'', PStr ''2305'')] #
                  [PDict [(''008'', PStr ''991231'')]]))"
    by code_simp
  have pre: "\<forall>f \<in> set [PDict [(''001'', PStr ''a1'')]]. py_contains ''008'' f = Inr False"
    by simp
  have key: "map_of [(''008'', PStr ''2305'')] ''008'' = Some (PStr ''2305'')"
    by simp
  have len: "length (str_strip ''2305'') = 4"
    by code_simp
  show ?thesis
    using
      C7_date_entered_slice
        [where L = fixed_lib and pre = "[PDict [(''001'', PStr ''a1'')]]"
           and kvs = "[(''008'', PStr ''2305'')]"
           and rest = "[PDict [(''008'', PStr ''991231'')]]"
           and s = "''2305''" and t = "''2305''"
           and m = "\<lparr>fullrecord = PDict [(''fields'',
                      PList [PDict [(''001'', PStr ''a1'')], PDict [(''008'', PStr ''2305'')],
                             PDict [(''008'', PStr ''991231'')]])]\<rparr>"]
      f pre key len
    by simp
qed

text \<open>
  Claim C8: \<open>VuFindMarcParser.fields\<close> returns the value under \<open>fields\<close> exactly
  when the stored \<open>fullrecord\<close> is a dict itself and has that key; it is \<open>None\<close> for
  every other stored value, an instance of a dict subclass included, whatever its keys.
\<close>

theorem C8_fields_exact_dict:
  "VuFindMarcParser_fields m =
     (case fullrecord m of
        PDict kvs \<Rightarrow> (case map_of kvs ''fields'' of Some v \<Rightarrow> Inr v | None \<Rightarrow> Inr PNone)
      | PDictSub c kvs \<Rightarrow> Inr PNone
      | PList xs \<Rightarrow> Inr PNone
      | PStr s \<Rightarrow> Inr PNone
      | PInt i \<Rightarrow> Inr PNone
      | PBool b \<Rightarrow> Inr PNone
      | PNone \<Rightarrow> Inr PNone)"
  by (cases "fullrecord m") (auto simp: VuFindMarcParser_fields_def split: option.splits)

section \<open>The hierarchy identifiers\<close>

text \<open>
  Claim C9: \<open>hierarchy_parent_id\<close> returns what is stored under the key
  \<open>hierarchy_top_id\<close>. It equals \<open>hierarchy_top_id\<close> on every parser, and on a parser
  built from a dict document it is the value under \<open>hierarchy_top_id\<close>, \<open>None\<close>
  when that key is missing, whatever is stored under \<open>hierarchy_parent_id\<close>.
\<close>

theorem C9_hierarchy_parent_id_reads_top_id:
  "hierarchy_parent_id p = hierarchy_top_id p \<and>
   (VuFindParser_init (PDict kvs) w = Inr q \<longrightarrow>
      hierarchy_parent_id q =
        Inr (case map_of kvs ''hierarchy_top_id'' of Some v \<Rightarrow> v | None \<Rightarrow> PNone))"
  by (auto simp: hierarchy_parent_id_def hierarchy_top_id_def
       dest!: VuFindParser_init_raw VuFindParser_field_dict)

text \<open>The theorem at \<^verbatim>\<open>{"hierarchy_parent_id": ["p1"]}\<close>: the result is \<open>None\<close>.\<close>

theorem C9_hierarchy_parent_id_witness:
  "map_of [(''hierarchy_parent_id'', PList [PStr ''p1''])] ''hierarchy_parent_id'' =
     Some (PList [PStr ''p1'']) \<and>
   hierarchy_parent_id
     \<lparr>raw = PDict [(''hierarchy_parent_id'', PList [PStr ''p1''])],
      fields' = [''hierarchy_parent_id''], marc = None\<rparr> = Inr PNone"
proof -
  have init: "VuFindParser_init (PDict [(''hierarchy_parent_id'', PList [PStr ''p1''])]) False =
      Inr \<lparr>raw = PDict [(''hierarchy_parent_id'', PList [PStr ''p1''])],
           fields' = [''hierarchy_parent_id''], marc = None\<rparr>"
    by code_simp
  note C9_hierarchy_parent_id_reads_top_id
        [where w = False and kvs = "[(''hierarchy_parent_id'', PList [PStr ''p1''])]"
           and q = "\<lparr>raw = PDict [(''hierarchy_parent_id'', PList [PStr ''p1''])],
                       fields' = [''hierarchy_parent_id''], marc = None\<rparr>",
         THEN conjunct2, THEN mp, OF init]
  then show ?thesis
    by simp
qed

section \<open>Values of 005 that are no text\<close>

text \<open>
  Claim C10, as the source has it: \<open>latest_transaction_datetime\<close> swallows only the
  \<open>ValueError\<close> of a failed parse. When \<open>latest_transaction\<close> is a value that is
  neither a text nor \<open>None\<close> (a number, a list, a dict), \<open>strptime\<close> raises
  \<open>TypeError\<close> and the property raises it to the caller.
\<close>

theorem C10_non_text_transaction_raises:
  "latest_transaction m = Inr v \<Longrightarrow> \<not> py_is_str v \<Longrightarrow> v \<noteq> PNone \<Longrightarrow>
   latest_transaction_datetime L m = Inl TypeError"
  by (cases v) (simp_all add: latest_transaction_datetime_def)

text \<open>The theorem at \<^verbatim>\<open>{"fields": [{"005": 20230501123045}]}\<close>.\<close>

theorem C10_non_text_transaction_witness:
  "latest_transaction
     \<lparr>fullrecord = PDict [(''fields'', PList [PDict [(''005'', PInt 20230501123045)]])]\<rparr> =
     Inr (PInt 20230501123045) \<and>
   latest_transaction_datetime fixed_lib
     \<lparr>fullrecord = PDict [(''fields'', PList [PDict [(''005'', PInt 20230501123045)]])]\<rparr> =
     Inl TypeError"
proof -
  have lt: "latest_transaction
      \<lparr>fullrecord = PDict [(''fields'', PList [PDict [(''005'', PInt 20230501123045)]])]\<rparr> =
      Inr (PInt 20230501123045)"
    by code_simp
  show ?thesis
    using
      C10_non_text_transaction_raises
        [where L = fixed_lib and v = "PInt 20230501123045"
           and m = "\<lparr>fullrecord =
                      PDict [(''fields'', PList [PDict [(''005'', PInt 20230501123045)]])]\<rparr>"]
      lt
    by simp
qed

text \<open>
  Claim C10 as the specification states it fails where the first 005 entry holds
  \<open>None\<close>, a value that is no text: at \<^verbatim>\<open>{"fields": [{"005": None}]}\<close> the guard
  \<^verbatim>\<open>if latest_trans is not None\<close> skips the parse and the property returns \<open>None\<close>.
\<close>

theorem C10_none_transaction_counterexample:
  "latest_transaction
     \<lparr>fullrecord = PDict [(''fields'', PList [PDict [(''005'', PNone)]])]\<rparr> = Inr PNone \<and>
   \<not> py_is_str PNone \<and>
   latest_transaction_datetime fixed_lib
     \<lparr>fullrecord = PDict [(''fields'', PList [PDict [(''005'', PNone)]])]\<rparr> = Inr None"
  by code_simp

end
